theory Spec2Isabelle
  imports Main "HOL-Library.Word"
begin

section \<open>The ID-5100 backend of Hamlib (rigs/icom/id5100.c)\<close>

subsection \<open>Types and constants of the Hamlib and Icom headers\<close>

text \<open>
  \<open>vfo_t\<close> is a bit mask in \<open>hamlib/rig.h\<close>. The backend only compares it for equality
  with five named masks, so the model keeps these as constructors; every other value of
  the mask (a memory channel, VFO C, ...) is \<open>RIG_VFO_MEM\<close> or \<open>RIG_VFO_OTHER n\<close>.
\<close>

datatype vfo_t =
    RIG_VFO_A | RIG_VFO_B | RIG_VFO_MAIN | RIG_VFO_SUB | RIG_VFO_CURR
  | RIG_VFO_MEM | RIG_VFO_OTHER nat

text \<open>
  \<open>rmode_t\<close> likewise: the five modes of \<open>ID5100_MODES\<close>, and every other mode value.
\<close>

datatype rmode_t =
    RIG_MODE_AM | RIG_MODE_AMN | RIG_MODE_FM | RIG_MODE_FMN | RIG_MODE_DSTAR
  | RIG_MODE_USB | RIG_MODE_OTHER nat

datatype split_t = RIG_SPLIT_OFF | RIG_SPLIT_ON

datatype setting_t = RIG_FUNC_DUAL_WATCH | RIG_FUNC_OTHER nat

type_synonym pbwidth_t = int

text \<open>
  Modelled from the spec: the headers \<open>hamlib/rig.h\<close> and \<open>icom_defs.h\<close> that declare the
  result codes and the CI-V command numbers are not among the sources. \<open>RIG_OK\<close> is
  success, \<open>RIG_EINVAL\<close> is the spec's InvalidArgument (returned negated), \<open>S_MAIN\<close> and
  \<open>S_SUB\<close> are the two physical selector codes of the VFO-select command. The numbers
  are those of Hamlib's headers; the theorems below use only that they are distinct.
\<close>

definition RIG_OK :: int where "RIG_OK = 0"
definition RIG_EINVAL :: int where "RIG_EINVAL = 1"

definition C_RD_MODE :: int where "C_RD_MODE = 0x04"
definition C_SET_MODE :: int where "C_SET_MODE = 0x06"
definition C_SET_VFO :: int where "C_SET_VFO = 0x07"
definition S_MAIN :: int where "S_MAIN = 0xd0"
definition S_SUB :: int where "S_SUB = 0xd1"

subsection \<open>State and external collaborators\<close>

text \<open>
  The two fields of \<open>struct icom_priv_data\<close> that the backend touches. Both are C ints
  used as flags: a value other than 0 is true.
\<close>

record icom_priv_data =
  x25cmdfails :: int
  dual_watch :: int

text \<open>
  A call to one of the two external collaborators:
  \<open>icom_transaction(rig, cmd, subcmd, payload, payload_len, ...)\<close> and
  \<open>icom_set_func(rig, vfo, func, status)\<close>.
\<close>

datatype call =
    Transaction int int "8 word list"
  | SetFunc vfo_t setting_t int

text \<open>
  The part of \<open>RIG\<close> the backend reads and writes: \<open>rig->state.current_vfo\<close> and
  \<open>rig->state.priv\<close>. The field \<open>calls\<close> is a ghost variable: the collaborator calls issued
  so far on this handle, oldest first.
\<close>

record rig =
  current_vfo :: vfo_t
  priv :: icom_priv_data
  calls :: "call list"

text \<open>
  The collaborators themselves are not among the sources. Each is a parameter: any
  function from the calls issued so far and the arguments of the call to its return
  value. \<open>icom_transaction\<close> also gives the contents of the response buffer after the
  call, by index. The collaborators write no field of \<open>icom_priv_data\<close>
  (the spec: the receiver-path state is mutated only by the VFO selector).
\<close>

record icom_env =
  icom_transaction :: "call list \<Rightarrow> int \<Rightarrow> int \<Rightarrow> 8 word list \<Rightarrow> int \<times> (nat \<Rightarrow> 8 word)"
  icom_set_func :: "call list \<Rightarrow> vfo_t \<Rightarrow> setting_t \<Rightarrow> int \<Rightarrow> int"

definition transaction ::
  "icom_env \<Rightarrow> rig \<Rightarrow> int \<Rightarrow> int \<Rightarrow> 8 word list \<Rightarrow> (int \<times> (nat \<Rightarrow> 8 word)) \<times> rig" where
  "transaction e r cmd subcmd payload =
     (icom_transaction e (calls r) cmd subcmd payload,
      r\<lparr>calls := calls r @ [Transaction cmd subcmd payload]\<rparr>)"

definition set_func :: "icom_env \<Rightarrow> rig \<Rightarrow> vfo_t \<Rightarrow> setting_t \<Rightarrow> int \<Rightarrow> int \<times> rig" where
  "set_func e r vfo func status =
     (icom_set_func e (calls r) vfo func status,
      r\<lparr>calls := calls r @ [SetFunc vfo func status]\<rparr>)"

subsection \<open>\<open>id5100_set_mode\<close>\<close>

text \<open>The switch of lines 82--97: \<open>(icmode, modebuf)\<close>, or \<open>None\<close> in the default case.\<close>

fun set_mode_codes :: "rmode_t \<Rightarrow> (int \<times> 8 word) option" where
  "set_mode_codes RIG_MODE_AM = Some (2, 1)"
| "set_mode_codes RIG_MODE_AMN = Some (2, 2)"
| "set_mode_codes RIG_MODE_FM = Some (5, 1)"
| "set_mode_codes RIG_MODE_FMN = Some (5, 2)"
| "set_mode_codes RIG_MODE_DSTAR = Some (0x17, 1)"
| "set_mode_codes _ = None"

definition id5100_set_mode ::
  "icom_env \<Rightarrow> rig \<Rightarrow> vfo_t \<Rightarrow> rmode_t \<Rightarrow> pbwidth_t \<Rightarrow> int \<times> rig" where
  "id5100_set_mode e r vfo mode width =
     (case set_mode_codes mode of
        None \<Rightarrow> (- RIG_EINVAL, r)
      | Some (icmode, modebuf) \<Rightarrow>
          (let ((retval, ackbuf), r') = transaction e r C_SET_MODE icmode [modebuf]
           in (retval, r')))"

subsection \<open>\<open>id5100_get_mode\<close>\<close>

text \<open>
  The switch of lines 121--134 on \<open>modebuf[1]\<close>. The pair \<open>(mode, width)\<close> is what
  \<open>*mode\<close> and \<open>*width\<close> hold; the switch has no default case, so for any other code they
  keep what the caller had in them.
\<close>

definition get_mode_decode ::
  "(nat \<Rightarrow> 8 word) \<Rightarrow> rmode_t \<times> pbwidth_t \<Rightarrow> rmode_t \<times> pbwidth_t" where
  "get_mode_decode modebuf out =
     (if modebuf 1 = 2 then
        (if modebuf 2 = 1 then RIG_MODE_AM else RIG_MODE_AMN,
         if modebuf 2 = 1 then 12000 else 6000)
      else if modebuf 1 = 5 then
        (if modebuf 2 = 1 then RIG_MODE_FM else RIG_MODE_FMN,
         if modebuf 2 = 1 then 10000 else 5000)
      else if modebuf 1 = 0x17 then (RIG_MODE_DSTAR, 6000)
      else out)"

text \<open>
  \<open>mode0\<close> and \<open>width0\<close> are the contents of \<open>*mode\<close> and \<open>*width\<close> on entry; the result
  is the return value with their contents on exit.
\<close>

definition id5100_get_mode ::
  "icom_env \<Rightarrow> rig \<Rightarrow> vfo_t \<Rightarrow> rmode_t \<Rightarrow> pbwidth_t \<Rightarrow> (int \<times> rmode_t \<times> pbwidth_t) \<times> rig" where
  "id5100_get_mode e r vfo mode0 width0 =
     (let ((retval, modebuf), r') = transaction e r C_RD_MODE (- 1) []
      in if retval \<noteq> RIG_OK then ((retval, mode0, width0), r')
         else ((RIG_OK, get_mode_decode modebuf (mode0, width0)), r'))"

subsection \<open>\<open>id5100_set_vfo\<close>\<close>

definition set_x25cmdfails :: "rig \<Rightarrow> int \<Rightarrow> rig" where
  "set_x25cmdfails r v = r\<lparr>priv := (priv r)\<lparr>x25cmdfails := v\<rparr>\<rparr>"

definition set_dual_watch :: "rig \<Rightarrow> int \<Rightarrow> rig" where
  "set_dual_watch r v = r\<lparr>priv := (priv r)\<lparr>dual_watch := v\<rparr>\<rparr>"

text \<open>Lines 186--199: the physical selector and the VFO-select transaction.\<close>

definition myvfo :: "vfo_t \<Rightarrow> int" where
  "myvfo vfo = (if vfo = RIG_VFO_B \<or> vfo = RIG_VFO_SUB then S_SUB else S_MAIN)"

definition set_vfo_select :: "icom_env \<Rightarrow> rig \<Rightarrow> vfo_t \<Rightarrow> int \<times> rig" where
  "set_vfo_select e r vfo =
     (let ((retval, ackbuf), r') = transaction e r C_SET_VFO (myvfo vfo) []
      in (retval, r'))"

definition id5100_set_vfo :: "icom_env \<Rightarrow> rig \<Rightarrow> vfo_t \<Rightarrow> int \<times> rig" where
  "id5100_set_vfo e r vfo0 =
     (let vfo = (if vfo0 = RIG_VFO_CURR then current_vfo r else vfo0) in
      if vfo = RIG_VFO_A \<or> vfo = RIG_VFO_B then
        (let r1 = set_x25cmdfails r 1 in
         if dual_watch (priv r1) \<noteq> 0 then
           (let (retval, r2) = set_func e r1 RIG_VFO_CURR RIG_FUNC_DUAL_WATCH 0 in
            if RIG_OK \<noteq> retval then (retval, r2)
            else set_vfo_select e (set_dual_watch r2 0) vfo)
         else set_vfo_select e r1 vfo)
      else if vfo = RIG_VFO_MAIN \<or> vfo = RIG_VFO_SUB then
        (let r1 = set_x25cmdfails r 1 in
         if dual_watch (priv r1) = 0 then
           (let (retval, r2) = set_func e r1 RIG_VFO_CURR RIG_FUNC_DUAL_WATCH 1 in
            if RIG_OK \<noteq> retval then (retval, r2)
            else set_vfo_select e (set_dual_watch r2 1) vfo)
         else set_vfo_select e r1 vfo)
      else set_vfo_select e r vfo)"

subsection \<open>\<open>id5100_set_split_vfo\<close>\<close>

text \<open>
  Modelled from the spec: \<open>rig_set_vfo\<close> is the frontend's VFO setter and is not among
  the sources. The spec (4.3) says that the split coordinator delegates to the VFO
  selector, so the call is the dispatch to the backend's \<open>set_vfo\<close> entry, which
  \<open>id5100_caps\<close> sets to \<open>id5100_set_vfo\<close>.
\<close>

definition rig_set_vfo :: "icom_env \<Rightarrow> rig \<Rightarrow> vfo_t \<Rightarrow> int \<times> rig" where
  "rig_set_vfo e r vfo = id5100_set_vfo e r vfo"

definition id5100_set_split_vfo ::
  "icom_env \<Rightarrow> rig \<Rightarrow> vfo_t \<Rightarrow> split_t \<Rightarrow> vfo_t \<Rightarrow> int \<times> rig" where
  "id5100_set_split_vfo e r vfo split tx_vfo =
     (if tx_vfo = RIG_VFO_A \<or> tx_vfo = RIG_VFO_MAIN then rig_set_vfo e r RIG_VFO_SUB
      else (- RIG_EINVAL, r))"

subsection \<open>Sequences of operations\<close>

text \<open>
  The four operations of the function table that this file implements, with their
  arguments (for \<open>get_mode\<close>, the caller's contents of \<open>*mode\<close> and \<open>*width\<close>), and the
  state a handle is in after a sequence of them.
\<close>

datatype op =
    Op_set_mode vfo_t rmode_t pbwidth_t
  | Op_get_mode vfo_t rmode_t pbwidth_t
  | Op_set_vfo vfo_t
  | Op_set_split_vfo vfo_t split_t vfo_t

fun exec :: "icom_env \<Rightarrow> rig \<Rightarrow> op \<Rightarrow> rig" where
  "exec e r (Op_set_mode vfo mode width) = snd (id5100_set_mode e r vfo mode width)"
| "exec e r (Op_get_mode vfo mode0 width0) = snd (id5100_get_mode e r vfo mode0 width0)"
| "exec e r (Op_set_vfo vfo) = snd (id5100_set_vfo e r vfo)"
| "exec e r (Op_set_split_vfo vfo split tx_vfo) = snd (id5100_set_split_vfo e r vfo split tx_vfo)"

fun run :: "icom_env \<Rightarrow> rig \<Rightarrow> op list \<Rightarrow> rig" where
  "run e r [] = r"
| "run e r (x # xs) = run e (exec e r x) xs"

subsection \<open>The spec's tables and concrete devices\<close>

text \<open>
  The bandwidth the spec (section 3) gives for each of the five operating modes, to
  compare with what \<open>id5100_get_mode\<close> writes to \<open>*width\<close>.
\<close>

fun expected_bandwidth :: "rmode_t \<Rightarrow> pbwidth_t" where
  "expected_bandwidth RIG_MODE_AM = 12000"
| "expected_bandwidth RIG_MODE_AMN = 6000"
| "expected_bandwidth RIG_MODE_FM = 10000"
| "expected_bandwidth RIG_MODE_FMN = 5000"
| "expected_bandwidth RIG_MODE_DSTAR = 6000"
| "expected_bandwidth _ = 0"

text \<open>
  The resolved request of \<open>id5100_set_vfo\<close> (line 148), and the VFO-select call it ends
  with.
\<close>

definition resolve_vfo :: "rig \<Rightarrow> vfo_t \<Rightarrow> vfo_t" where
  "resolve_vfo r vfo = (if vfo = RIG_VFO_CURR then current_vfo r else vfo)"

definition select_call :: "vfo_t \<Rightarrow> call" where
  "select_call vfo = Transaction C_SET_VFO (myvfo vfo) []"

definition toggle_call :: "int \<Rightarrow> call" where
  "toggle_call status = SetFunc RIG_VFO_CURR RIG_FUNC_DUAL_WATCH status"

text \<open>
  Concrete devices for evaluation. \<open>env_mode c s\<close> acknowledges every call and answers
  a transaction with the buffer \<open>[0x04, c, s, 0]\<close>; \<open>env_func_fails\<close> acknowledges every
  transaction and fails every function call with \<open>-5\<close> (Hamlib's timeout code).
  \<open>rig0 dw\<close> is a fresh handle on VFO A with the dual-watch flag \<open>dw\<close>.
\<close>

definition env_mode :: "8 word \<Rightarrow> 8 word \<Rightarrow> icom_env" where
  "env_mode c s =
     \<lparr>icom_transaction = (\<lambda>h cmd subcmd payload.
          (RIG_OK, (\<lambda>i. if i = 0 then 0x04 else if i = 1 then c else if i = 2 then s else 0))),
      icom_set_func = (\<lambda>h vfo func status. RIG_OK)\<rparr>"

definition env_func_fails :: icom_env where
  "env_func_fails =
     \<lparr>icom_transaction = (\<lambda>h cmd subcmd payload. (RIG_OK, (\<lambda>i. 0))),
      icom_set_func = (\<lambda>h vfo func status. - 5)\<rparr>"

definition rig0 :: "int \<Rightarrow> rig" where
  "rig0 dw = \<lparr>current_vfo = RIG_VFO_A, priv = \<lparr>x25cmdfails = 0, dual_watch = dw\<rparr>, calls = []\<rparr>"

section \<open>Properties\<close>

subsection \<open>What \<open>id5100_set_vfo\<close> computes, by group\<close>

lemma set_vfo_select_eq:
  "set_vfo_select e r vfo =
     (fst (icom_transaction e (calls r) C_SET_VFO (myvfo vfo) []),
      r\<lparr>calls := calls r @ [select_call vfo]\<rparr>)"
  by (simp add: set_vfo_select_def transaction_def select_call_def split: prod.splits)

lemma set_vfo_conventional:
  assumes "resolve_vfo r vfo = v" and "v = RIG_VFO_A \<or> v = RIG_VFO_B"
  shows "id5100_set_vfo e r vfo =
     (if dual_watch (priv r) \<noteq> 0 then
        (if icom_set_func e (calls r) RIG_VFO_CURR RIG_FUNC_DUAL_WATCH 0 \<noteq> RIG_OK
         then (icom_set_func e (calls r) RIG_VFO_CURR RIG_FUNC_DUAL_WATCH 0,
               (set_x25cmdfails r 1)\<lparr>calls := calls r @ [toggle_call 0]\<rparr>)
         else set_vfo_select e
               (set_dual_watch ((set_x25cmdfails r 1)\<lparr>calls := calls r @ [toggle_call 0]\<rparr>) 0) v)
      else set_vfo_select e (set_x25cmdfails r 1) v)"
  using assms
  by (auto simp: id5100_set_vfo_def resolve_vfo_def set_func_def toggle_call_def
      set_x25cmdfails_def Let_def)

lemma set_vfo_dual_path:
  assumes "resolve_vfo r vfo = v" and "v = RIG_VFO_MAIN \<or> v = RIG_VFO_SUB"
  shows "id5100_set_vfo e r vfo =
     (if dual_watch (priv r) = 0 then
        (if icom_set_func e (calls r) RIG_VFO_CURR RIG_FUNC_DUAL_WATCH 1 \<noteq> RIG_OK
         then (icom_set_func e (calls r) RIG_VFO_CURR RIG_FUNC_DUAL_WATCH 1,
               (set_x25cmdfails r 1)\<lparr>calls := calls r @ [toggle_call 1]\<rparr>)
         else set_vfo_select e
               (set_dual_watch ((set_x25cmdfails r 1)\<lparr>calls := calls r @ [toggle_call 1]\<rparr>) 1) v)
      else set_vfo_select e (set_x25cmdfails r 1) v)"
  using assms
  by (auto simp: id5100_set_vfo_def resolve_vfo_def set_func_def toggle_call_def
      set_x25cmdfails_def Let_def)

lemma set_vfo_neither:
  assumes "resolve_vfo r vfo = v"
    and "v \<notin> {RIG_VFO_A, RIG_VFO_B, RIG_VFO_MAIN, RIG_VFO_SUB}"
  shows "id5100_set_vfo e r vfo = set_vfo_select e r v"
  using assms by (auto simp: id5100_set_vfo_def resolve_vfo_def Let_def)

lemma calls_set_x25cmdfails [simp]: "calls (set_x25cmdfails r v) = calls r"
  by (simp add: set_x25cmdfails_def)

lemma calls_set_dual_watch [simp]: "calls (set_dual_watch r v) = calls r"
  by (simp add: set_dual_watch_def)

lemma priv_set_x25cmdfails [simp]:
  "x25cmdfails (priv (set_x25cmdfails r v)) = v"
  "dual_watch (priv (set_x25cmdfails r v)) = dual_watch (priv r)"
  by (simp_all add: set_x25cmdfails_def)

lemma priv_set_dual_watch [simp]:
  "dual_watch (priv (set_dual_watch r v)) = v"
  "x25cmdfails (priv (set_dual_watch r v)) = x25cmdfails (priv r)"
  by (simp_all add: set_dual_watch_def)

text \<open>
  Claim C1. Let \<open>v\<close> be the requested VFO after \<open>RIG_VFO_CURR\<close> is resolved, one of A, B,
  Main, Sub, and let the dual-watch flag have any starting value. If \<open>v\<close> is A or B and
  dual-watch is enabled, the calls that \<open>id5100_set_vfo\<close> issues are exactly one
  toggle-off call, followed by the VFO-select transaction (which is issued when the
  toggle succeeded). If \<open>v\<close> is Main or Sub and dual-watch is disabled, they are exactly
  one toggle-on call, followed by the select in the same way. If the group of \<open>v\<close>
  already matches the flag, the select transaction is the only call: no toggle.
\<close>

theorem set_vfo_toggle_calls:
  assumes "resolve_vfo r vfo = v"
    and "v \<in> {RIG_VFO_A, RIG_VFO_B, RIG_VFO_MAIN, RIG_VFO_SUB}"
  shows "((v = RIG_VFO_A \<or> v = RIG_VFO_B) \<and> dual_watch (priv r) \<noteq> 0 \<longrightarrow>
           calls (snd (id5100_set_vfo e r vfo)) =
             calls r @ toggle_call 0 #
               (if icom_set_func e (calls r) RIG_VFO_CURR RIG_FUNC_DUAL_WATCH 0 = RIG_OK
                then [select_call v] else []))
       \<and> ((v = RIG_VFO_MAIN \<or> v = RIG_VFO_SUB) \<and> dual_watch (priv r) = 0 \<longrightarrow>
           calls (snd (id5100_set_vfo e r vfo)) =
             calls r @ toggle_call 1 #
               (if icom_set_func e (calls r) RIG_VFO_CURR RIG_FUNC_DUAL_WATCH 1 = RIG_OK
                then [select_call v] else []))
       \<and> ((v = RIG_VFO_A \<or> v = RIG_VFO_B) \<and> dual_watch (priv r) = 0
           \<or> (v = RIG_VFO_MAIN \<or> v = RIG_VFO_SUB) \<and> dual_watch (priv r) \<noteq> 0 \<longrightarrow>
           calls (snd (id5100_set_vfo e r vfo)) = calls r @ [select_call v])"
proof -
  consider (conv) "v = RIG_VFO_A \<or> v = RIG_VFO_B" | (dual) "v = RIG_VFO_MAIN \<or> v = RIG_VFO_SUB"
    using assms(2) by auto
  then show ?thesis
  proof cases
    case conv
    then have "\<not> (v = RIG_VFO_MAIN \<or> v = RIG_VFO_SUB)" by auto
    with conv show ?thesis
      by (simp add: set_vfo_conventional [OF assms(1) conv] set_vfo_select_eq)
  next
    case dual
    then have "\<not> (v = RIG_VFO_A \<or> v = RIG_VFO_B)" by auto
    with dual show ?thesis
      by (simp add: set_vfo_dual_path [OF assms(1) dual] set_vfo_select_eq)
  qed
qed

theorem set_vfo_toggle_calls_witness:
  "resolve_vfo (rig0 0) RIG_VFO_MAIN = RIG_VFO_MAIN
   \<and> RIG_VFO_MAIN \<in> {RIG_VFO_A, RIG_VFO_B, RIG_VFO_MAIN, RIG_VFO_SUB}
   \<and> dual_watch (priv (rig0 0)) = 0
   \<and> calls (snd (id5100_set_vfo (env_mode 5 2) (rig0 0) RIG_VFO_MAIN)) =
       [toggle_call 1, select_call RIG_VFO_MAIN]"
  using set_vfo_toggle_calls [of "rig0 0" RIG_VFO_MAIN RIG_VFO_MAIN "env_mode 5 2"]
  by (simp add: resolve_vfo_def rig0_def env_mode_def)

text \<open>
  Claim C2. When \<open>id5100_set_vfo\<close> makes a dual-watch toggle call (A or B with dual-watch
  enabled, Main or Sub with dual-watch disabled) and that call returns a failure, the
  operation returns that failure, the toggle is the only call issued (the VFO-select
  transaction is never issued), and the stored dual-watch flag keeps its value.
\<close>

theorem set_vfo_toggle_failure:
  assumes "resolve_vfo r vfo = v"
    and "(v = RIG_VFO_A \<or> v = RIG_VFO_B) \<and> dual_watch (priv r) \<noteq> 0 \<and> status = 0
         \<or> (v = RIG_VFO_MAIN \<or> v = RIG_VFO_SUB) \<and> dual_watch (priv r) = 0 \<and> status = 1"
    and "icom_set_func e (calls r) RIG_VFO_CURR RIG_FUNC_DUAL_WATCH status = retval"
    and "retval \<noteq> RIG_OK"
  shows "fst (id5100_set_vfo e r vfo) = retval
       \<and> calls (snd (id5100_set_vfo e r vfo)) = calls r @ [toggle_call status]
       \<and> dual_watch (priv (snd (id5100_set_vfo e r vfo))) = dual_watch (priv r)"
proof -
  consider (off) "v = RIG_VFO_A \<or> v = RIG_VFO_B" "dual_watch (priv r) \<noteq> 0" "status = 0"
    | (on) "v = RIG_VFO_MAIN \<or> v = RIG_VFO_SUB" "dual_watch (priv r) = 0" "status = 1"
    using assms(2) by blast
  then show ?thesis
  proof cases
    case off
    with assms(3,4) show ?thesis
      by (simp add: set_vfo_conventional [OF assms(1) off(1)])
  next
    case on
    with assms(3,4) show ?thesis
      by (simp add: set_vfo_dual_path [OF assms(1) on(1)])
  qed
qed

theorem set_vfo_toggle_failure_witness:
  "resolve_vfo (rig0 1) RIG_VFO_A = RIG_VFO_A
   \<and> dual_watch (priv (rig0 1)) \<noteq> 0
   \<and> icom_set_func env_func_fails (calls (rig0 1)) RIG_VFO_CURR RIG_FUNC_DUAL_WATCH 0 = - 5
   \<and> - 5 \<noteq> RIG_OK
   \<and> fst (id5100_set_vfo env_func_fails (rig0 1) RIG_VFO_A) = - 5
   \<and> calls (snd (id5100_set_vfo env_func_fails (rig0 1) RIG_VFO_A)) = [toggle_call 0]
   \<and> dual_watch (priv (snd (id5100_set_vfo env_func_fails (rig0 1) RIG_VFO_A))) = 1"
  using set_vfo_toggle_failure [of "rig0 1" RIG_VFO_A RIG_VFO_A 0 env_func_fails "- 5"]
  by (simp add: resolve_vfo_def rig0_def env_func_fails_def RIG_OK_def)

text \<open>
  Claim C7 as stated fails when the toggle call fails: on VFO A with dual-watch enabled
  and a device that rejects function calls, the only call issued is the toggle, no
  VFO-select transaction is issued, and the result \<open>-5\<close> is the toggle's, not that of a
  select transaction (which this device would have acknowledged with 0).
\<close>

theorem set_vfo_select_counterexample:
  "calls (snd (id5100_set_vfo env_func_fails (rig0 1) RIG_VFO_A)) = [toggle_call 0]
   \<and> toggle_call 0 \<noteq> Transaction C_SET_VFO S_MAIN []
   \<and> fst (id5100_set_vfo env_func_fails (rig0 1) RIG_VFO_A) = - 5
   \<and> fst (icom_transaction env_func_fails [toggle_call 0] C_SET_VFO S_MAIN []) = 0"
  by (simp add: id5100_set_vfo_def set_func_def set_x25cmdfails_def rig0_def
      env_func_fails_def toggle_call_def RIG_OK_def)

text \<open>
  Claim C7, amended. For every requested VFO \<open>v\<close> in A, B, Main, Sub (after
  \<open>RIG_VFO_CURR\<close> is resolved), when no dual-watch toggle is needed or the toggle call
  succeeds, the last call \<open>id5100_set_vfo\<close> issues is the VFO-select transaction with an
  empty payload and the code \<open>S_MAIN\<close> when \<open>v\<close> is A or Main, \<open>S_SUB\<close> when \<open>v\<close> is B or
  Sub; only toggle calls precede it, and the operation's result is that transaction's
  result.
\<close>

theorem set_vfo_select_transaction:
  assumes "resolve_vfo r vfo = v"
    and "v \<in> {RIG_VFO_A, RIG_VFO_B, RIG_VFO_MAIN, RIG_VFO_SUB}"
    and "(v = RIG_VFO_A \<or> v = RIG_VFO_B) \<and> dual_watch (priv r) \<noteq> 0 \<longrightarrow>
           icom_set_func e (calls r) RIG_VFO_CURR RIG_FUNC_DUAL_WATCH 0 = RIG_OK"
    and "(v = RIG_VFO_MAIN \<or> v = RIG_VFO_SUB) \<and> dual_watch (priv r) = 0 \<longrightarrow>
           icom_set_func e (calls r) RIG_VFO_CURR RIG_FUNC_DUAL_WATCH 1 = RIG_OK"
    and "code = (if v = RIG_VFO_A \<or> v = RIG_VFO_MAIN then S_MAIN else S_SUB)"
  shows "\<exists>pre. calls (snd (id5100_set_vfo e r vfo)) = calls r @ pre @ [Transaction C_SET_VFO code []]
           \<and> set pre \<subseteq> {toggle_call 0, toggle_call 1}
           \<and> fst (id5100_set_vfo e r vfo) =
               fst (icom_transaction e (calls r @ pre) C_SET_VFO code [])"
proof -
  have code: "code = myvfo v"
    using assms(2,5) by (auto simp: myvfo_def)
  consider (conv) "v = RIG_VFO_A \<or> v = RIG_VFO_B" | (dual) "v = RIG_VFO_MAIN \<or> v = RIG_VFO_SUB"
    using assms(2) by auto
  then show ?thesis
  proof cases
    case conv
    show ?thesis
    proof (cases "dual_watch (priv r) \<noteq> 0")
      case True
      with conv assms(3) show ?thesis
        by (intro exI [of _ "[toggle_call 0]"])
          (simp add: set_vfo_conventional [OF assms(1) conv] set_vfo_select_eq code
            select_call_def)
    next
      case False
      with conv show ?thesis
        by (intro exI [of _ "[]"])
          (simp add: set_vfo_conventional [OF assms(1) conv] set_vfo_select_eq code
            select_call_def)
    qed
  next
    case dual
    show ?thesis
    proof (cases "dual_watch (priv r) = 0")
      case True
      with dual assms(4) show ?thesis
        by (intro exI [of _ "[toggle_call 1]"])
          (simp add: set_vfo_dual_path [OF assms(1) dual] set_vfo_select_eq code
            select_call_def)
    next
      case False
      with dual show ?thesis
        by (intro exI [of _ "[]"])
          (simp add: set_vfo_dual_path [OF assms(1) dual] set_vfo_select_eq code
            select_call_def)
    qed
  qed
qed

theorem set_vfo_select_transaction_witness:
  "resolve_vfo (rig0 0) RIG_VFO_SUB = RIG_VFO_SUB
   \<and> dual_watch (priv (rig0 0)) = 0
   \<and> icom_set_func (env_mode 5 2) (calls (rig0 0)) RIG_VFO_CURR RIG_FUNC_DUAL_WATCH 1 = RIG_OK
   \<and> (\<exists>pre. calls (snd (id5100_set_vfo (env_mode 5 2) (rig0 0) RIG_VFO_SUB)) =
              pre @ [Transaction C_SET_VFO S_SUB []]
         \<and> fst (id5100_set_vfo (env_mode 5 2) (rig0 0) RIG_VFO_SUB) =
              fst (icom_transaction (env_mode 5 2) pre C_SET_VFO S_SUB []))"
  using set_vfo_select_transaction
    [of "rig0 0" RIG_VFO_SUB RIG_VFO_SUB "env_mode 5 2" S_SUB]
  by (auto simp add: resolve_vfo_def rig0_def env_mode_def)

text \<open>
  Claim C9. For a requested VFO that, after \<open>RIG_VFO_CURR\<close> is resolved, is none of A, B,
  Main, Sub (a memory VFO, say), \<open>id5100_set_vfo\<close> does not reject the argument: its only
  call is the VFO-select transaction with the code \<open>S_MAIN\<close> and an empty payload, its
  result is that transaction's result, and both flags keep their values.
\<close>

theorem set_vfo_other:
  assumes "resolve_vfo r vfo = v"
    and "v \<notin> {RIG_VFO_A, RIG_VFO_B, RIG_VFO_MAIN, RIG_VFO_SUB}"
  shows "id5100_set_vfo e r vfo =
           (fst (icom_transaction e (calls r) C_SET_VFO S_MAIN []),
            r\<lparr>calls := calls r @ [Transaction C_SET_VFO S_MAIN []]\<rparr>)
       \<and> dual_watch (priv (snd (id5100_set_vfo e r vfo))) = dual_watch (priv r)
       \<and> x25cmdfails (priv (snd (id5100_set_vfo e r vfo))) = x25cmdfails (priv r)"
proof -
  have "myvfo v = S_MAIN"
    using assms(2) by (simp add: myvfo_def)
  then show ?thesis
    by (simp add: set_vfo_neither [OF assms] set_vfo_select_eq select_call_def)
qed

theorem set_vfo_other_witness:
  "resolve_vfo (rig0 1) RIG_VFO_MEM = RIG_VFO_MEM
   \<and> RIG_VFO_MEM \<notin> {RIG_VFO_A, RIG_VFO_B, RIG_VFO_MAIN, RIG_VFO_SUB}
   \<and> id5100_set_vfo env_func_fails (rig0 1) RIG_VFO_MEM =
       (RIG_OK, (rig0 1)\<lparr>calls := [Transaction C_SET_VFO S_MAIN []]\<rparr>)"
  using set_vfo_other [of "rig0 1" RIG_VFO_MEM RIG_VFO_MEM env_func_fails]
  by (simp add: resolve_vfo_def rig0_def env_func_fails_def)

subsection \<open>The mode codec\<close>

text \<open>
  Claim C3. For each of the five operating modes, let \<open>(icmode, sub)\<close> be the pair that
  the switch of \<open>id5100_set_mode\<close> produces for it. When the device answers the read-mode
  transaction with that pair in \<open>modebuf[1]\<close> and \<open>modebuf[2]\<close>, \<open>id5100_get_mode\<close> returns
  \<open>RIG_OK\<close> with the same mode and its fixed bandwidth: 12000 Hz for AM, 6000 for
  AM-narrow, 10000 for FM, 5000 for FM-narrow, 6000 for digital voice. In particular
  the answer (5, 2) decodes to FM-narrow at 5000 Hz.
\<close>

theorem mode_round_trip:
  assumes "mode \<in> {RIG_MODE_AM, RIG_MODE_AMN, RIG_MODE_FM, RIG_MODE_FMN, RIG_MODE_DSTAR}"
    and "set_mode_codes mode = Some (icmode, sub)"
    and "icom_transaction e (calls r) C_RD_MODE (- 1) [] = (RIG_OK, modebuf)"
    and "modebuf 1 = word_of_int icmode" and "modebuf 2 = sub"
  shows "fst (id5100_get_mode e r vfo mode0 width0) = (RIG_OK, mode, expected_bandwidth mode)
       \<and> fst (id5100_get_mode (env_mode 5 2) r vfo mode0 width0) = (RIG_OK, RIG_MODE_FMN, 5000)"
proof -
  have "get_mode_decode modebuf (mode0, width0) = (mode, expected_bandwidth mode)"
    using assms(1,2,4,5) by (auto simp: get_mode_decode_def)
  moreover have "fst (id5100_get_mode e r vfo mode0 width0) =
      (RIG_OK, get_mode_decode modebuf (mode0, width0))"
    using assms(3) by (simp add: id5100_get_mode_def transaction_def)
  moreover have "fst (id5100_get_mode (env_mode 5 2) r vfo mode0 width0) =
      (RIG_OK, RIG_MODE_FMN, 5000)"
    by (simp add: id5100_get_mode_def transaction_def env_mode_def get_mode_decode_def)
  ultimately show ?thesis by simp
qed

theorem mode_round_trip_witness:
  "RIG_MODE_AM \<in> {RIG_MODE_AM, RIG_MODE_AMN, RIG_MODE_FM, RIG_MODE_FMN, RIG_MODE_DSTAR}
   \<and> set_mode_codes RIG_MODE_AM = Some (2, 1)
   \<and> fst (icom_transaction (env_mode 2 1) (calls (rig0 0)) C_RD_MODE (- 1) []) = RIG_OK
   \<and> snd (icom_transaction (env_mode 2 1) (calls (rig0 0)) C_RD_MODE (- 1) []) 1 = word_of_int 2
   \<and> snd (icom_transaction (env_mode 2 1) (calls (rig0 0)) C_RD_MODE (- 1) []) 2 = 1
   \<and> fst (id5100_get_mode (env_mode 2 1) (rig0 0) RIG_VFO_CURR RIG_MODE_USB 2400) =
       (RIG_OK, RIG_MODE_AM, 12000)"
  using mode_round_trip [of RIG_MODE_AM 2 1 "env_mode 2 1" "rig0 0"
      "snd (icom_transaction (env_mode 2 1) (calls (rig0 0)) C_RD_MODE (- 1) [])"
      RIG_VFO_CURR RIG_MODE_USB 2400]
  by (simp add: env_mode_def)

text \<open>
  Claim C4, evaluated on the code. The device answers the read-mode transaction with
  the pair (1, 1), which is in no branch of the switch: \<open>id5100_get_mode\<close> returns
  \<open>RIG_OK\<close>, and \<open>*mode\<close> and \<open>*width\<close> still hold what the caller had in them (here USB
  and 2400). With the pair (2, 3) it returns \<open>RIG_OK\<close> with AM-narrow and 6000 Hz. In
  neither case does it report an error.
\<close>

theorem get_mode_unrecognized_code:
  "id5100_get_mode (env_mode 1 1) (rig0 0) RIG_VFO_CURR RIG_MODE_USB 2400 =
     ((RIG_OK, RIG_MODE_USB, 2400), (rig0 0)\<lparr>calls := [Transaction C_RD_MODE (- 1) []]\<rparr>)
   \<and> fst (id5100_get_mode (env_mode 2 3) (rig0 0) RIG_VFO_CURR RIG_MODE_USB 2400) =
     (RIG_OK, RIG_MODE_AMN, 6000)"
  by (simp add: id5100_get_mode_def transaction_def env_mode_def get_mode_decode_def rig0_def)

text \<open>
  Claim C8. For a mode that is none of the five supported ones, \<open>id5100_set_mode\<close>
  returns \<open>-RIG_EINVAL\<close> (a failure) and leaves the handle as it was: no transaction is
  issued. For each of the five it issues exactly one call, the set-mode transaction
  with the mode code as sub-command and the sub-code as the one-byte payload, and
  returns that transaction's result.
\<close>

theorem set_mode_calls:
  "(mode \<notin> {RIG_MODE_AM, RIG_MODE_AMN, RIG_MODE_FM, RIG_MODE_FMN, RIG_MODE_DSTAR} \<longrightarrow>
      id5100_set_mode e r vfo mode width = (- RIG_EINVAL, r) \<and> - RIG_EINVAL \<noteq> RIG_OK)
   \<and> (mode \<in> {RIG_MODE_AM, RIG_MODE_AMN, RIG_MODE_FM, RIG_MODE_FMN, RIG_MODE_DSTAR} \<longrightarrow>
      (\<exists>icmode modebuf. set_mode_codes mode = Some (icmode, modebuf)
         \<and> id5100_set_mode e r vfo mode width =
             (fst (icom_transaction e (calls r) C_SET_MODE icmode [modebuf]),
              r\<lparr>calls := calls r @ [Transaction C_SET_MODE icmode [modebuf]]\<rparr>)))"
proof (intro conjI impI)
  assume "mode \<notin> {RIG_MODE_AM, RIG_MODE_AMN, RIG_MODE_FM, RIG_MODE_FMN, RIG_MODE_DSTAR}"
  then have "set_mode_codes mode = None"
    by (cases mode) simp_all
  then show "id5100_set_mode e r vfo mode width = (- RIG_EINVAL, r)"
    by (simp add: id5100_set_mode_def)
next
  show "- RIG_EINVAL \<noteq> RIG_OK"
    by (simp add: RIG_EINVAL_def RIG_OK_def)
next
  assume "mode \<in> {RIG_MODE_AM, RIG_MODE_AMN, RIG_MODE_FM, RIG_MODE_FMN, RIG_MODE_DSTAR}"
  then obtain icmode modebuf where c: "set_mode_codes mode = Some (icmode, modebuf)"
    by auto
  then have "id5100_set_mode e r vfo mode width =
      (fst (icom_transaction e (calls r) C_SET_MODE icmode [modebuf]),
       r\<lparr>calls := calls r @ [Transaction C_SET_MODE icmode [modebuf]]\<rparr>)"
    by (simp add: id5100_set_mode_def transaction_def split: prod.splits)
  with c show "\<exists>icmode modebuf. set_mode_codes mode = Some (icmode, modebuf)
         \<and> id5100_set_mode e r vfo mode width =
             (fst (icom_transaction e (calls r) C_SET_MODE icmode [modebuf]),
              r\<lparr>calls := calls r @ [Transaction C_SET_MODE icmode [modebuf]]\<rparr>)"
    by blast
qed

theorem set_mode_calls_witness:
  "RIG_MODE_USB \<notin> {RIG_MODE_AM, RIG_MODE_AMN, RIG_MODE_FM, RIG_MODE_FMN, RIG_MODE_DSTAR}
   \<and> id5100_set_mode (env_mode 5 2) (rig0 0) RIG_VFO_CURR RIG_MODE_USB 2400 = (- 1, rig0 0)
   \<and> RIG_MODE_FMN \<in> {RIG_MODE_AM, RIG_MODE_AMN, RIG_MODE_FM, RIG_MODE_FMN, RIG_MODE_DSTAR}
   \<and> id5100_set_mode (env_mode 5 2) (rig0 0) RIG_VFO_CURR RIG_MODE_FMN 5000 =
       (0, (rig0 0)\<lparr>calls := [Transaction C_SET_MODE 5 [2]]\<rparr>)"
  using set_mode_calls [of RIG_MODE_USB "env_mode 5 2" "rig0 0" RIG_VFO_CURR 2400]
    set_mode_calls [of RIG_MODE_FMN "env_mode 5 2" "rig0 0" RIG_VFO_CURR 5000]
  by (simp add: RIG_EINVAL_def RIG_OK_def env_mode_def rig0_def)

subsection \<open>Split\<close>

text \<open>
  Claim C5. With a transmit VFO of A or Main, \<open>id5100_set_split_vfo\<close> is the VFO
  selection of Sub: same result, same calls, same final state. With any other
  transmit VFO (Sub and B included) it returns \<open>-RIG_EINVAL\<close>, a failure, with the handle
  unchanged: no call is issued and no field is written.
\<close>

theorem set_split_vfo_pairing:
  "(tx_vfo = RIG_VFO_A \<or> tx_vfo = RIG_VFO_MAIN \<longrightarrow>
      id5100_set_split_vfo e r vfo split tx_vfo = id5100_set_vfo e r RIG_VFO_SUB)
   \<and> (tx_vfo \<noteq> RIG_VFO_A \<and> tx_vfo \<noteq> RIG_VFO_MAIN \<longrightarrow>
      id5100_set_split_vfo e r vfo split tx_vfo = (- RIG_EINVAL, r) \<and> - RIG_EINVAL \<noteq> RIG_OK)"
  by (simp add: id5100_set_split_vfo_def rig_set_vfo_def RIG_EINVAL_def RIG_OK_def)

theorem set_split_vfo_pairing_witness:
  "id5100_set_split_vfo (env_mode 5 2) (rig0 0) RIG_VFO_A RIG_SPLIT_ON RIG_VFO_MAIN =
     (0, \<lparr>current_vfo = RIG_VFO_A, priv = \<lparr>x25cmdfails = 1, dual_watch = 1\<rparr>,
          calls = [toggle_call 1, Transaction C_SET_VFO S_SUB []]\<rparr>)
   \<and> RIG_VFO_SUB \<noteq> RIG_VFO_A \<and> RIG_VFO_SUB \<noteq> RIG_VFO_MAIN
   \<and> id5100_set_split_vfo (env_mode 5 2) (rig0 0) RIG_VFO_A RIG_SPLIT_ON RIG_VFO_SUB =
     (- 1, rig0 0)"
  using set_split_vfo_pairing [of RIG_VFO_MAIN "env_mode 5 2" "rig0 0" RIG_VFO_A RIG_SPLIT_ON]
    set_split_vfo_pairing [of RIG_VFO_SUB "env_mode 5 2" "rig0 0" RIG_VFO_A RIG_SPLIT_ON]
  by (simp add: id5100_set_vfo_def set_func_def set_x25cmdfails_def set_dual_watch_def
      set_vfo_select_def transaction_def myvfo_def toggle_call_def env_mode_def rig0_def
      RIG_EINVAL_def RIG_OK_def)

text \<open>
  Claim C10. The \<open>split\<close> argument has no influence: two calls of
  \<open>id5100_set_split_vfo\<close> that differ only in it agree on the result, on the calls
  issued and on the final state.
\<close>

theorem set_split_vfo_ignores_split:
  "id5100_set_split_vfo e r vfo split tx_vfo = id5100_set_split_vfo e r vfo split' tx_vfo"
  by (simp add: id5100_set_split_vfo_def)

theorem set_split_vfo_ignores_split_witness:
  "id5100_set_split_vfo (env_mode 5 2) (rig0 0) RIG_VFO_A RIG_SPLIT_ON RIG_VFO_MAIN =
   id5100_set_split_vfo (env_mode 5 2) (rig0 0) RIG_VFO_A RIG_SPLIT_OFF RIG_VFO_MAIN"
  using set_split_vfo_ignores_split
    [of "env_mode 5 2" "rig0 0" RIG_VFO_A RIG_SPLIT_ON RIG_VFO_MAIN RIG_SPLIT_OFF]
  by simp

subsection \<open>The flag \<open>x25cmdfails\<close>\<close>

lemma priv_set_vfo_select: "priv (snd (set_vfo_select e r v)) = priv r"
  by (simp add: set_vfo_select_eq)

lemma x25cmdfails_set_vfo:
  "x25cmdfails (priv (snd (id5100_set_vfo e r vfo))) =
     (if resolve_vfo r vfo \<in> {RIG_VFO_A, RIG_VFO_B, RIG_VFO_MAIN, RIG_VFO_SUB} then 1
      else x25cmdfails (priv r))"
proof -
  consider (conv) "resolve_vfo r vfo = RIG_VFO_A \<or> resolve_vfo r vfo = RIG_VFO_B"
    | (dual) "resolve_vfo r vfo = RIG_VFO_MAIN \<or> resolve_vfo r vfo = RIG_VFO_SUB"
    | (other) "resolve_vfo r vfo \<notin> {RIG_VFO_A, RIG_VFO_B, RIG_VFO_MAIN, RIG_VFO_SUB}"
    by auto
  then show ?thesis
  proof cases
    case conv
    then show ?thesis
      by (auto simp: set_vfo_conventional [OF refl conv] priv_set_vfo_select)
  next
    case dual
    then show ?thesis
      by (auto simp: set_vfo_dual_path [OF refl dual] priv_set_vfo_select)
  next
    case other
    then show ?thesis
      by (simp add: set_vfo_neither [OF refl other] priv_set_vfo_select)
  qed
qed

lemma priv_set_mode: "priv (snd (id5100_set_mode e r vfo mode width)) = priv r"
  by (simp add: id5100_set_mode_def transaction_def split: option.splits prod.splits)

lemma priv_get_mode: "priv (snd (id5100_get_mode e r vfo mode0 width0)) = priv r"
  by (simp add: id5100_get_mode_def transaction_def split: prod.splits)

lemma x25cmdfails_exec:
  "x25cmdfails (priv r) \<noteq> 0 \<Longrightarrow> x25cmdfails (priv (exec e r x)) \<noteq> 0"
  by (cases x)
    (simp_all add: priv_set_mode priv_get_mode x25cmdfails_set_vfo id5100_set_split_vfo_def
      rig_set_vfo_def)

lemma x25cmdfails_run:
  "x25cmdfails (priv r) \<noteq> 0 \<Longrightarrow> x25cmdfails (priv (run e r xs)) \<noteq> 0"
proof (induction xs arbitrary: r)
  case Nil
  then show ?case by simp
next
  case (Cons x xs)
  from Cons.prems have "x25cmdfails (priv (exec e r x)) \<noteq> 0"
    by (rule x25cmdfails_exec)
  then show ?case
    by (simp add: Cons.IH)
qed

text \<open>
  Claim C6. Every VFO selection of A, B, Main or Sub (after \<open>RIG_VFO_CURR\<close> is resolved)
  leaves \<open>x25cmdfails\<close> at 1, in either group and whatever the collaborators return, so
  in particular on every successful selection. No operation resets it: if it is true
  (not 0) on a handle, it is true after any sequence of set-mode, get-mode, set-vfo and
  set-split-vfo operations.
\<close>

theorem x25cmdfails_monotonic:
  "(resolve_vfo r vfo \<in> {RIG_VFO_A, RIG_VFO_B, RIG_VFO_MAIN, RIG_VFO_SUB} \<longrightarrow>
      x25cmdfails (priv (snd (id5100_set_vfo e r vfo))) = 1)
   \<and> (x25cmdfails (priv r) \<noteq> 0 \<longrightarrow> x25cmdfails (priv (run e r ops)) \<noteq> 0)"
  by (simp add: x25cmdfails_set_vfo x25cmdfails_run)

theorem x25cmdfails_monotonic_witness:
  "resolve_vfo (set_x25cmdfails (rig0 0) 1) RIG_VFO_CURR \<in>
     {RIG_VFO_A, RIG_VFO_B, RIG_VFO_MAIN, RIG_VFO_SUB}
   \<and> x25cmdfails (priv (snd (id5100_set_vfo (env_mode 5 2) (set_x25cmdfails (rig0 0) 1)
         RIG_VFO_CURR))) = 1
   \<and> x25cmdfails (priv (set_x25cmdfails (rig0 0) 1)) \<noteq> 0
   \<and> x25cmdfails (priv (run (env_mode 5 2) (set_x25cmdfails (rig0 0) 1)
         [Op_set_vfo RIG_VFO_MEM, Op_set_mode RIG_VFO_CURR RIG_MODE_FM 0,
          Op_get_mode RIG_VFO_CURR RIG_MODE_USB 0,
          Op_set_split_vfo RIG_VFO_A RIG_SPLIT_OFF RIG_VFO_SUB])) \<noteq> 0"
  using x25cmdfails_monotonic [of "set_x25cmdfails (rig0 0) 1" RIG_VFO_CURR "env_mode 5 2"
      "[Op_set_vfo RIG_VFO_MEM, Op_set_mode RIG_VFO_CURR RIG_MODE_FM 0,
        Op_get_mode RIG_VFO_CURR RIG_MODE_USB 0,
        Op_set_split_vfo RIG_VFO_A RIG_SPLIT_OFF RIG_VFO_SUB]"]
  by (simp add: resolve_vfo_def rig0_def set_x25cmdfails_def)

end
